theory Spec2Isabelle
  imports Main
begin

section \<open>Values, errors and completions\<close>

text \<open>
  The values a caller hands to the cache and gets back from it are JavaScript values of
  type \<open>any\<close>. The model keeps the JSON-shaped ones; numbers are integers.
\<close>

datatype jsval =
    JNull
  | JBool bool
  | JNum int
  | JStr string
  | JArr "jsval list"
  | JObj "(string \<times> jsval) list"

text \<open>
  The exceptions of the component: the two it constructs itself, with the correlation id,
  the code and the message it passes, the error a client callback delivers, the
  \<open>SyntaxError\<close> of \<open>JSON.parse\<close>, the \<open>TypeError\<close> of a method call on \<open>null\<close> or of
  an argument of the wrong type, and the \<open>RangeError\<close> of a number out of range.
\<close>

datatype error =
    InvalidStateException string string string
  | ConfigException string string string
  | ReplyError string
  | SyntaxError string
  | TypeError string
  | RangeError string

text \<open>
  How a call ends. \<open>retrieve\<close>, \<open>store\<close> and \<open>remove\<close> are not \<open>async\<close> functions: an
  exception raised before their promise is built is thrown to the caller (\<open>Throws\<close>).
  A promise is rejected (\<open>Rejects\<close>) or resolved (\<open>Resolves\<close>). An exception raised inside
  a callback of the client, after the promise executor has returned, settles nothing
  (\<open>Uncaught\<close>).
\<close>

datatype 'a completion =
    Throws error
  | Rejects error
  | Resolves 'a
  | Uncaught error

section \<open>The JSON codec of the platform\<close>

text \<open>
  \<open>JSON.stringify\<close> and \<open>JSON.parse\<close> belong to the platform, not to the component;
  every operation that uses them takes them as a parameter.
\<close>

record codec =
  stringify :: "jsval \<Rightarrow> string"
  parse :: "string \<Rightarrow> error + jsval"

text \<open>
  A value is serializable by a codec when its JSON text is not the empty string and
  parses back to the value.
\<close>

definition serializable :: "codec \<Rightarrow> jsval \<Rightarrow> bool" where
  "serializable cd v \<longleftrightarrow> stringify cd v \<noteq> [] \<and> parse cd (stringify cd v) = Inr v"

section \<open>The external store and the client library\<close>

text \<open>
  The commands the component sends, and the replies of the store as the client library
  hands them to a callback: \<open>null\<close>, a status or bulk string, or an integer.
\<close>

datatype command =
    GET string
  | SET string string int
  | DEL string
  | QUIT

datatype reply =
    Nil
  | Status string
  | Bulk string
  | Integer int

text \<open>
  The world outside the component: the entries of the store, each with the instant (in
  milliseconds) at which it expires, the clock, the failure (if any) that the transport
  reports to callbacks, the commands handed to clients so far, the clients created and
  not yet ended, and the number of clients created.
\<close>

record redis_env =
  entries :: "string \<Rightarrow> (string \<times> int) option"
  clock :: int
  link_error :: "string option"
  issued :: "(nat \<times> command) list"
  sockets :: "nat list"
  created :: nat

definition live :: "redis_env \<Rightarrow> string \<Rightarrow> string option" where
  "live env k =
     (case entries env k of
        None \<Rightarrow> None
      | Some (v, expiry) \<Rightarrow> if clock env < expiry then Some v else None)"

definition advance :: "int \<Rightarrow> redis_env \<Rightarrow> redis_env" where
  "advance dt env = env\<lparr>clock := clock env + dt\<rparr>"

text \<open>
  What the store does with a command of client \<open>h\<close>, and what the callback receives:
  \<open>GET\<close> gives the live value or \<open>null\<close>; \<open>SET key value PX t\<close> is refused unless
  \<open>t\<close> is positive, and answers \<open>OK\<close>; \<open>DEL\<close> answers the number of keys deleted;
  \<open>QUIT\<close> answers \<open>OK\<close> and ends the client's connection.
\<close>

fun execute :: "nat \<Rightarrow> command \<Rightarrow> redis_env \<Rightarrow> (error option \<times> reply) \<times> redis_env" where
  "execute h (GET k) env =
     ((None, case live env k of None \<Rightarrow> Nil | Some v \<Rightarrow> Bulk v), env)"
| "execute h (SET k v t) env =
     (if t \<le> 0 then ((Some (ReplyError ''ERR invalid expire time in set''), Nil), env)
      else ((None, Status ''OK''), env\<lparr>entries := (entries env)(k \<mapsto> (v, clock env + t))\<rparr>))"
| "execute h (DEL k) env =
     ((None, Integer (case live env k of None \<Rightarrow> 0 | Some v \<Rightarrow> 1)),
      env\<lparr>entries := (entries env)(k := None)\<rparr>)"
| "execute h QUIT env =
     ((None, Status ''OK''), env\<lparr>sockets := removeAll h (sockets env)\<rparr>)"

text \<open>
  A method call on the client: the command is recorded as issued; the callback receives
  the transport's failure if there is one, and the store's answer otherwise.
\<close>

definition send_command ::
  "nat \<Rightarrow> command \<Rightarrow> redis_env \<Rightarrow> (error option \<times> reply) \<times> redis_env" where
  "send_command h cmd env =
     (let env1 = env\<lparr>issued := issued env @ [(h, cmd)]\<rparr>
      in case link_error env of
           Some e \<Rightarrow> ((Some (ReplyError e), Nil), env1)
         | None \<Rightarrow> execute h cmd env1)"

text \<open>Truthiness of a reply, its value as a JavaScript value, and its string form.\<close>

fun truthy :: "reply \<Rightarrow> bool" where
  "truthy Nil = False"
| "truthy (Status s) = (s \<noteq> [])"
| "truthy (Bulk s) = (s \<noteq> [])"
| "truthy (Integer n) = (n \<noteq> 0)"

fun reply_value :: "reply \<Rightarrow> jsval" where
  "reply_value Nil = JNull"
| "reply_value (Status s) = JStr s"
| "reply_value (Bulk s) = JStr s"
| "reply_value (Integer n) = JNum n"

text \<open>
  The decimal form of an integer, which is what \<open>JSON.parse\<close> reads when it is handed
  a number. \<open>show_nat\<close> asks \<open>digit_char\<close> for digits below ten only.
\<close>

definition digit_char :: "nat \<Rightarrow> char" where
  "digit_char d = ''0123456789'' ! d"

function show_nat :: "nat \<Rightarrow> string" where
  "show_nat n = (if n < 10 then [digit_char n] else show_nat (n div 10) @ [digit_char (n mod 10)])"
  by pat_completeness auto
termination
  by (relation "measure id") auto

declare show_nat.simps [simp del]

definition show_int :: "int \<Rightarrow> string" where
  "show_int i = (if i < 0 then CHR ''-'' # show_nat (nat (- i)) else show_nat (nat i))"

fun ToString :: "reply \<Rightarrow> string" where
  "ToString Nil = ''null''"
| "ToString (Status s) = s"
| "ToString (Bulk s) = s"
| "ToString (Integer n) = show_int n"

section \<open>RedisCache\<close>

text \<open>
  What the connection resolver and the credential resolver give to \<open>open\<close>, and the
  options \<open>open\<close> builds for \<open>createClient\<close>. The \<open>retry_strategy\<close> option is the
  closure over \<open>retryStrategy\<close> of the component and carries no data. The \<open>password\<close>
  option is absent (\<open>None\<close>) when \<open>open\<close> does not set it, and otherwise holds what
  \<open>getPassword()\<close> returned: \<open>null\<close> (\<open>Some None\<close>) or a string.
\<close>

record connection_params =
  getUri :: "string option"
  getHost :: "string option"
  getPort :: "int option"

record credential_params =
  getPassword :: "string option"

record client_options =
  url :: "string option"
  host :: "string option"
  port :: "int option"
  password :: "string option option"

text \<open>
  The handle \<open>createClient\<close> returns. It returns at once: the connection is not yet
  established, and becomes so when the transport reports it. \<open>createClient\<close> throws
  instead when the client library refuses the options; which options it refuses, and
  with which exception, is the library's and is a parameter (\<open>refuses\<close>). A call that
  throws creates no connection.
\<close>

record client_handle =
  ident :: nat
  options :: client_options
  connected :: bool

text \<open>The transport reports that the connection of the handle held is established.\<close>

definition connect_event :: "client_handle option \<Rightarrow> client_handle option" where
  "connect_event h = map_option (\<lambda>c. c\<lparr>connected := True\<rparr>) h"

definition createClient ::
  "(client_options \<Rightarrow> error option) \<Rightarrow> client_options \<Rightarrow> redis_env \<Rightarrow>
   error + client_handle \<times> redis_env" where
  "createClient refuses opts env =
     (case refuses opts of
        Some e \<Rightarrow> Inl e
      | None \<Rightarrow>
          Inr (\<lparr>ident = created env, options = opts, connected = False\<rparr>,
               env\<lparr>sockets := sockets env @ [created env], created := Suc (created env)\<rparr>))"

record RedisCache =
  timeout :: int
  retries :: int
  client :: "client_handle option"

definition new_RedisCache :: RedisCache where
  "new_RedisCache = \<lparr>timeout = 30000, retries = 3, client = None\<rparr>"

text \<open>
  \<open>configure\<close>: \<open>getAsIntegerWithDefault\<close> of the configuration container gives the
  default when the key is missing or its value does not convert to an integer; the
  conversion is the container's and is a parameter. The two resolvers keep their own
  configuration; what they resolve to is an argument of \<open>open\<close>.
\<close>

definition getAsIntegerWithDefault ::
  "(string \<Rightarrow> int option) \<Rightarrow> (string \<Rightarrow> string option) \<Rightarrow> string \<Rightarrow> int \<Rightarrow> int" where
  "getAsIntegerWithDefault conv config key d =
     (case config key of
        None \<Rightarrow> d
      | Some text \<Rightarrow> (case conv text of None \<Rightarrow> d | Some n \<Rightarrow> n))"

definition configure ::
  "(string \<Rightarrow> int option) \<Rightarrow> (string \<Rightarrow> string option) \<Rightarrow> RedisCache \<Rightarrow> RedisCache" where
  "configure conv config s =
     (let s1 = s\<lparr>timeout := getAsIntegerWithDefault conv config ''options.timeout'' (timeout s)\<rparr>
      in s1\<lparr>retries := getAsIntegerWithDefault conv config ''options.retries'' (retries s1)\<rparr>)"

definition isOpen :: "RedisCache \<Rightarrow> bool" where
  "isOpen s \<longleftrightarrow> client s \<noteq> None"

definition build_options :: "connection_params \<Rightarrow> credential_params option \<Rightarrow> client_options" where
  "build_options connection credential =
     (let o1 =
        (if getUri connection \<noteq> None
         then \<lparr>url = getUri connection, host = None, port = None, password = None\<rparr>
         else \<lparr>url = None,
               host = Some (case getHost connection of
                              None \<Rightarrow> ''localhost''
                            | Some h \<Rightarrow> if h = [] then ''localhost'' else h),
               port = Some (case getPort connection of
                              None \<Rightarrow> 6379
                            | Some p \<Rightarrow> if p = 0 then 6379 else p),
               password = None\<rparr>)
      in case credential of
           None \<Rightarrow> o1
         | Some cr \<Rightarrow> o1\<lparr>password := Some (getPassword cr)\<rparr>)"

text \<open>
  \<open>open\<close>, here \<open>open_cache\<close> since \<open>open\<close> is a keyword of the theory language, is
  \<open>async\<close>: every exception rejects its promise, that of \<open>createClient\<close> included, and
  then \<open>_client\<close> is not assigned. The first argument is what the client library
  refuses. The two arguments after the correlation id are what the two \<open>await\<close>s
  yield: the resolved connection (an exception, \<open>null\<close>, or the parameters) and the
  credential looked up.
\<close>

definition open_cache ::
  "(client_options \<Rightarrow> error option) \<Rightarrow> string \<Rightarrow> error + connection_params option \<Rightarrow>
   error + credential_params option \<Rightarrow>
   RedisCache \<times> redis_env \<Rightarrow> (RedisCache \<times> redis_env) \<times> unit completion" where
  "open_cache refuses correlationId resolved looked_up w =
     (case resolved of
        Inl e \<Rightarrow> (w, Rejects e)
      | Inr None \<Rightarrow>
          (w, Rejects (ConfigException correlationId ''NO_CONNECTION''
                         ''Connection is not configured''))
      | Inr (Some connection) \<Rightarrow>
          (case looked_up of
             Inl e \<Rightarrow> (w, Rejects e)
           | Inr credential \<Rightarrow>
               (case createClient refuses (build_options connection credential) (snd w) of
                  Inl e \<Rightarrow> (w, Rejects e)
                | Inr (c, env') \<Rightarrow> (((fst w)\<lparr>client := Some c\<rparr>, env'), Resolves ()))))"

definition close ::
  "string \<Rightarrow> RedisCache \<times> redis_env \<Rightarrow> (RedisCache \<times> redis_env) \<times> unit completion" where
  "close correlationId w =
     (case client (fst w) of
        None \<Rightarrow> (w, Resolves ())
      | Some c \<Rightarrow>
          (let (cb, env') = send_command (ident c) QUIT (snd w)
           in case fst cb of
                Some err \<Rightarrow> ((fst w, env'), Rejects err)
              | None \<Rightarrow> (((fst w)\<lparr>client := None\<rparr>, env'), Resolves ())))"

definition checkOpened :: "string \<Rightarrow> RedisCache \<Rightarrow> error option" where
  "checkOpened correlationId s =
     (if \<not> isOpen s
      then Some (InvalidStateException correlationId ''NOT_OPENED'' ''Connection is not opened'')
      else None)"

text \<open>
  The argument of the reconnect policy, as the client library builds it: the error of
  the failed attempt (with its \<open>code\<close>, when it has one), the time spent retrying and
  the number of the attempt. The policy answers with an \<open>Error\<close>, with \<open>undefined\<close>, or
  with a number of milliseconds.
\<close>

record transport_error =
  code :: "string option"

record retry_options =
  error :: "transport_error option"
  total_retry_time :: int
  attempt :: int

datatype retry_decision =
    StopError string
  | Undefined
  | Delay int

definition retryStrategy :: "RedisCache \<Rightarrow> retry_options \<Rightarrow> retry_decision" where
  "retryStrategy s opts =
     (if (case error opts of None \<Rightarrow> False | Some e \<Rightarrow> code e = Some ''ECONNREFUSED'')
      then StopError ''The server refused the connection''
      else if total_retry_time opts > timeout s
      then StopError ''Retry time exhausted''
      else if attempt opts > retries s
      then Undefined
      else Delay (min (attempt opts * 100) 3000))"

text \<open>
  The expression \<open>value ? JSON.parse(value) : value\<close> of the callbacks of \<open>retrieve\<close> and
  \<open>remove\<close>. It runs inside the client's callback, so a \<open>SyntaxError\<close> of \<open>JSON.parse\<close>
  is not caught by the promise.
\<close>

definition parse_if_truthy :: "codec \<Rightarrow> reply \<Rightarrow> jsval completion" where
  "parse_if_truthy cd v =
     (if truthy v
      then (case parse cd (ToString v) of Inl e \<Rightarrow> Uncaught e | Inr x \<Rightarrow> Resolves x)
      else Resolves (reply_value v))"

definition retrieve ::
  "codec \<Rightarrow> string \<Rightarrow> string \<Rightarrow> RedisCache \<times> redis_env \<Rightarrow>
   (RedisCache \<times> redis_env) \<times> jsval completion" where
  "retrieve cd correlationId key w =
     (case checkOpened correlationId (fst w) of
        Some e \<Rightarrow> (w, Throws e)
      | None \<Rightarrow>
          (case client (fst w) of
             None \<Rightarrow> (w, Throws (TypeError ''get''))
           | Some c \<Rightarrow>
               (let (cb, env') = send_command (ident c) (GET key) (snd w)
                in ((fst w, env'),
                    case fst cb of
                      Some err \<Rightarrow> Rejects err
                    | None \<Rightarrow> parse_if_truthy cd (snd cb)))))"

definition store ::
  "codec \<Rightarrow> string \<Rightarrow> string \<Rightarrow> jsval \<Rightarrow> int \<Rightarrow> RedisCache \<times> redis_env \<Rightarrow>
   (RedisCache \<times> redis_env) \<times> jsval completion" where
  "store cd correlationId key v t w =
     (case checkOpened correlationId (fst w) of
        Some e \<Rightarrow> (w, Throws e)
      | None \<Rightarrow>
          (case client (fst w) of
             None \<Rightarrow> (w, Throws (TypeError ''set''))
           | Some c \<Rightarrow>
               (let (cb, env') = send_command (ident c) (SET key (stringify cd v) t) (snd w)
                in ((fst w, env'),
                    case fst cb of
                      Some err \<Rightarrow> Rejects err
                    | None \<Rightarrow> Resolves (reply_value (snd cb))))))"

definition remove ::
  "codec \<Rightarrow> string \<Rightarrow> string \<Rightarrow> RedisCache \<times> redis_env \<Rightarrow>
   (RedisCache \<times> redis_env) \<times> jsval completion" where
  "remove cd correlationId key w =
     (case checkOpened correlationId (fst w) of
        Some e \<Rightarrow> (w, Throws e)
      | None \<Rightarrow>
          (case client (fst w) of
             None \<Rightarrow> (w, Throws (TypeError ''del''))
           | Some c \<Rightarrow>
               (let (cb, env') = send_command (ident c) (DEL key) (snd w)
                in ((fst w, env'),
                    case fst cb of
                      Some err \<Rightarrow> Rejects err
                    | None \<Rightarrow> parse_if_truthy cd (snd cb)))))"

text \<open>The failure reason of a reconnect attempt is connection-refused.\<close>

definition refused :: "retry_options \<Rightarrow> bool" where
  "refused opts \<longleftrightarrow> map_option code (error opts) = Some (Some ''ECONNREFUSED'')"

section \<open>Example worlds\<close>

text \<open>
  A codec given by a finite table of values with their JSON texts: it is JSON on the
  rows of the table, and knows no other value and no other text.
\<close>

definition table_codec :: "(jsval \<times> string) list \<Rightarrow> codec" where
  "table_codec rows =
     \<lparr>stringify = (\<lambda>v. case map_of rows v of None \<Rightarrow> [] | Some s \<Rightarrow> s),
      parse = (\<lambda>s. case map_of (map (\<lambda>(v, s). (s, v)) rows) s of
                      None \<Rightarrow> Inl (SyntaxError s)
                    | Some v \<Rightarrow> Inr v)\<rparr>"

definition example_codec :: codec where
  "example_codec =
     table_codec [(JNull, ''null''), (JBool True, ''true''), (JNum 1, ''1''),
                  (JStr ''ABC'', [CHR 0x22] @ ''ABC'' @ [CHR 0x22])]"

definition fresh_env :: redis_env where
  "fresh_env = \<lparr>entries = (\<lambda>k. None), clock = 0, link_error = None, issued = [],
                 sockets = [], created = 0\<rparr>"

text \<open>
  A client library that refuses a port outside \<open>0..65535\<close> and a password that is
  \<open>null\<close>, and accepts all other options.
\<close>

definition example_refuses :: "client_options \<Rightarrow> error option" where
  "example_refuses opts =
     (if (case port opts of None \<Rightarrow> False | Some p \<Rightarrow> p < 0 \<or> 65535 < p)
      then Some (RangeError ''ERR_SOCKET_BAD_PORT'')
      else if password opts = Some None
      then Some (TypeError ''ERR_INVALID_ARG_TYPE'')
      else None)"

definition local_connection :: connection_params where
  "local_connection = \<lparr>getUri = None, getHost = Some ''localhost'', getPort = Some 6379\<rparr>"

text \<open>A new cache after \<open>open\<close>, and the same after \<open>store("123", "key1", "ABC", 1000)\<close>.\<close>

definition opened_world :: "RedisCache \<times> redis_env" where
  "opened_world =
     fst (open_cache example_refuses ''123'' (Inr (Some local_connection)) (Inr None)
            (new_RedisCache, fresh_env))"

definition stored_world :: "RedisCache \<times> redis_env" where
  "stored_world = fst (store example_codec ''123'' ''key1'' (JStr ''ABC'') 1000 opened_world)"

text \<open>The handle that the first \<open>createClient\<close> of \<open>opened_world\<close> returned.\<close>

definition first_handle :: client_handle where
  "first_handle =
     \<lparr>ident = 0,
      options = \<lparr>url = None, host = Some ''localhost'', port = Some 6379, password = None\<rparr>,
      connected = False\<rparr>"

text \<open>The opened cache on a transport that reports a failure to every callback.\<close>

definition broken_world :: "RedisCache \<times> redis_env" where
  "broken_world = (fst opened_world, (snd opened_world)\<lparr>link_error := Some ''Connection lost''\<rparr>)"

section \<open>Properties\<close>

lemma opened_world_eq:
  "opened_world =
     (\<lparr>timeout = 30000, retries = 3,
       client = Some \<lparr>ident = 0,
                      options = \<lparr>url = None, host = Some ''localhost'', port = Some 6379,
                                 password = None\<rparr>,
                      connected = False\<rparr>\<rparr>,
      \<lparr>entries = (\<lambda>k. None), clock = 0, link_error = None, issued = [], sockets = [0],
       created = Suc 0\<rparr>)"
  by (simp add: opened_world_def open_cache_def createClient_def build_options_def
      example_refuses_def new_RedisCache_def fresh_env_def local_connection_def)

lemma send_command_ok:
  "link_error env = None \<Longrightarrow>
   send_command h cmd env = execute h cmd (env\<lparr>issued := issued env @ [(h, cmd)]\<rparr>)"
  by (simp add: send_command_def)

text \<open>
  On an open cache whose transport works, a \<open>store\<close> with a positive timeout writes the
  JSON text of the value with its expiry, and its promise resolves with the reply of
  the \<open>SET\<close> command.
\<close>

lemma store_accepted:
  assumes "client s = Some c" and "link_error env = None" and "0 < t"
  shows "store cd cid k v t (s, env) =
           ((s, env\<lparr>issued := issued env @ [(ident c, SET k (stringify cd v) t)],
                     entries := (entries env)(k \<mapsto> (stringify cd v, clock env + t))\<rparr>),
            Resolves (JStr ''OK''))"
  using assms by (simp add: store_def checkOpened_def isOpen_def send_command_ok)

text \<open>
  On an open cache whose transport works, the promise of \<open>remove\<close> resolves with \<open>0\<close>
  when the key holds no live value, and otherwise with what \<open>JSON.parse\<close> makes of the
  text \<open>1\<close>.
\<close>

lemma remove_reply:
  assumes "client s = Some c" and "link_error env = None"
  shows "snd (remove cd cid k (s, env)) =
           (case live env k of
              None \<Rightarrow> Resolves (JNum 0)
            | Some x \<Rightarrow> (case parse cd ''1'' of Inl e \<Rightarrow> Uncaught e | Inr y \<Rightarrow> Resolves y))"
proof -
  have one: "show_int 1 = ''1''"
    by (simp add: show_int_def show_nat.simps digit_char_def)
  have lv: "live (env\<lparr>issued := issued env @ [(ident c, DEL k)]\<rparr>) k = live env k"
    by (simp add: live_def split: option.splits prod.splits)
  show ?thesis
    using assms one lv
    by (simp add: remove_def checkOpened_def isOpen_def send_command_ok
        parse_if_truthy_def split: option.splits)
qed

text \<open>
  When \<open>createClient\<close> throws, \<open>open\<close> rejects with its exception and changes nothing:
  the component keeps the handle it had, or none.
\<close>

lemma open_cache_refused:
  assumes "refuses (build_options connection credential) = Some e"
  shows "open_cache refuses cid (Inr (Some connection)) (Inr credential) w = (w, Rejects e)"
  using assms by (simp add: open_cache_def createClient_def)

text \<open>
  Two such cases with the example library: the port 70000, and a credential without a
  password. On the opened example cache both leave the first handle in place.
\<close>

lemma open_cache_refused_examples:
  "open_cache example_refuses ''124''
     (Inr (Some \<lparr>getUri = None, getHost = Some ''localhost'', getPort = Some 70000\<rparr>))
     (Inr None) opened_world
     = (opened_world, Rejects (RangeError ''ERR_SOCKET_BAD_PORT''))"
  "open_cache example_refuses ''124'' (Inr (Some local_connection))
     (Inr (Some \<lparr>getPassword = None\<rparr>)) opened_world
     = (opened_world, Rejects (TypeError ''ERR_INVALID_ARG_TYPE''))"
  by (simp_all add: open_cache_def createClient_def build_options_def example_refuses_def
      local_connection_def)

subsection \<open>Round trip\<close>

text \<open>
  C1. On an open cache, for every key \<open>k\<close> and every value \<open>v\<close> that the codec serializes
  (\<open>null\<close> is one of them, see the instance below), \<open>store(k, v, t)\<close> is accepted and a
  \<open>retrieve(k)\<close> issued \<open>dt\<close> milliseconds later, with \<open>0 \<le> dt < t\<close>, resolves with \<open>v\<close>.
\<close>

theorem store_retrieve_round_trip:
  assumes "isOpen s" and "link_error env = None" and "serializable cd v"
    and "0 \<le> dt" and "dt < t"
  shows "\<exists>w1 r. store cd cid k v t (s, env) = (w1, Resolves r) \<and>
           snd (retrieve cd cid' k (fst w1, advance dt (snd w1))) = Resolves v"
proof -
  from assms(1) obtain c where c: "client s = Some c"
    by (auto simp: isOpen_def)
  have t: "0 < t" using assms(4,5) by simp
  let ?env1 = "env\<lparr>issued := issued env @ [(ident c, SET k (stringify cd v) t)],
                    entries := (entries env)(k \<mapsto> (stringify cd v, clock env + t))\<rparr>"
  have st: "store cd cid k v t (s, env) = ((s, ?env1), Resolves (JStr ''OK''))"
    using c assms(2) t by (rule store_accepted)
  have lv: "live (advance dt ?env1) k = Some (stringify cd v)"
    using assms(5) by (simp add: live_def advance_def)
  have "snd (retrieve cd cid' k (s, advance dt ?env1)) = Resolves v"
    using c assms(2,3) lv
    by (simp add: retrieve_def checkOpened_def isOpen_def send_command_def advance_def
        parse_if_truthy_def serializable_def live_def)
  with st show ?thesis by simp
qed

text \<open>
  The instance for \<open>null\<close>: stored for 1000 ms on the opened example cache and retrieved
  10 ms later.
\<close>

theorem store_retrieve_round_trip_witness:
  "isOpen (fst opened_world) \<and> link_error (snd opened_world) = None \<and>
   serializable example_codec JNull \<and> (0::int) \<le> 10 \<and> (10::int) < 1000 \<and>
   (\<exists>w1 r. store example_codec ''123'' ''key1'' JNull 1000 opened_world = (w1, Resolves r) \<and>
      snd (retrieve example_codec ''123'' ''key1'' (fst w1, advance 10 (snd w1))) = Resolves JNull)"
proof -
  have h1: "isOpen (fst opened_world)" by (simp add: opened_world_eq isOpen_def)
  have h2: "link_error (snd opened_world) = None" by (simp add: opened_world_eq)
  have h3: "serializable example_codec JNull"
    by (simp add: serializable_def example_codec_def table_codec_def)
  have h4: "(0::int) \<le> 10" and h5: "(10::int) < 1000" by simp_all
  from store_retrieve_round_trip [OF h1 h2 h3 h4 h5, of "''123''" "''key1''" "''123''"] h1 h2 h3
  show ?thesis by simp
qed

subsection \<open>The value \<open>store\<close> resolves with\<close>

text \<open>
  C2. The promise of \<open>store\<close> is resolved with the \<open>value\<close> parameter of the callback
  of \<open>set\<close>, which hides the \<open>value\<close> argument of \<open>store\<close>: on the opened example cache,
  \<open>store("123", "key1", "ABC", 1000)\<close> is accepted and resolves with the reply \<open>"OK"\<close> of
  the store, not with \<open>"ABC"\<close>.
\<close>

theorem store_resolves_with_reply:
  "snd (store example_codec ''123'' ''key1'' (JStr ''ABC'') 1000 opened_world)
     = Resolves (JStr ''OK'') \<and>
   live (snd stored_world) ''key1'' = Some (stringify example_codec (JStr ''ABC''))"
  by (simp add: stored_world_def opened_world_eq store_def checkOpened_def isOpen_def
      send_command_def live_def)

subsection \<open>The guard of the cache operations\<close>

text \<open>
  C3. When the component is not open, \<open>retrieve\<close>, \<open>store\<close> and \<open>remove\<close> each throw the
  \<open>InvalidStateException\<close> of code \<open>NOT_OPENED\<close> and leave the component and the world
  outside it as they were: no command is issued.
\<close>

theorem not_opened_guard:
  assumes "\<not> isOpen s"
  shows "retrieve cd cid k (s, env) =
           ((s, env),
            Throws (InvalidStateException cid ''NOT_OPENED'' ''Connection is not opened'')) \<and>
         store cd cid k v t (s, env) =
           ((s, env),
            Throws (InvalidStateException cid ''NOT_OPENED'' ''Connection is not opened'')) \<and>
         remove cd cid k (s, env) =
           ((s, env),
            Throws (InvalidStateException cid ''NOT_OPENED'' ''Connection is not opened''))"
  using assms by (simp add: retrieve_def store_def remove_def checkOpened_def)

text \<open>The instance for a new, never opened cache.\<close>

theorem not_opened_guard_witness:
  "\<not> isOpen new_RedisCache \<and>
   retrieve example_codec ''123'' ''key1'' (new_RedisCache, fresh_env) =
     ((new_RedisCache, fresh_env),
      Throws (InvalidStateException ''123'' ''NOT_OPENED'' ''Connection is not opened'')) \<and>
   store example_codec ''123'' ''key1'' (JStr ''ABC'') 1000 (new_RedisCache, fresh_env) =
     ((new_RedisCache, fresh_env),
      Throws (InvalidStateException ''123'' ''NOT_OPENED'' ''Connection is not opened'')) \<and>
   remove example_codec ''123'' ''key1'' (new_RedisCache, fresh_env) =
     ((new_RedisCache, fresh_env),
      Throws (InvalidStateException ''123'' ''NOT_OPENED'' ''Connection is not opened''))"
proof -
  have h: "\<not> isOpen new_RedisCache"
    by (simp add: isOpen_def new_RedisCache_def)
  from h not_opened_guard [OF h] show ?thesis by blast
qed

subsection \<open>\<open>close\<close>\<close>

text \<open>
  C4, as stated, fails: on the opened example cache whose transport reports a failure,
  \<open>close\<close> rejects with that error and the component still holds its handle, so
  \<open>isOpen()\<close> is true afterwards.
\<close>

theorem close_error_keeps_handle:
  "snd (close ''123'' broken_world) = Rejects (ReplyError ''Connection lost'') \<and>
   isOpen (fst (fst (close ''123'' broken_world)))"
  by (simp add: broken_world_def opened_world_eq close_def send_command_def isOpen_def)

text \<open>
  C4, amended. Without a handle \<open>close\<close> does nothing and resolves. With a handle, when
  \<open>quit\<close> reports an error, \<open>close\<close> rejects with it and the component is unchanged: it
  keeps the handle and stays open. When \<open>quit\<close> succeeds, \<open>close\<close> resolves and the
  handle is discarded.
\<close>

theorem close_outcomes:
  "(client s = None \<longrightarrow> close cid (s, env) = ((s, env), Resolves ())) \<and>
   (client s \<noteq> None \<and> link_error env = Some e \<longrightarrow>
      snd (close cid (s, env)) = Rejects (ReplyError e) \<and>
      fst (fst (close cid (s, env))) = s \<and>
      isOpen (fst (fst (close cid (s, env))))) \<and>
   (client s \<noteq> None \<and> link_error env = None \<longrightarrow>
      snd (close cid (s, env)) = Resolves () \<and>
      \<not> isOpen (fst (fst (close cid (s, env)))))"
  by (auto simp: close_def isOpen_def send_command_def Let_def
      split: option.splits prod.splits)

text \<open>
  The three cases at the new cache, at the opened example cache with a failing
  transport (error \<open>Timeout\<close>), and at the opened example cache.
\<close>

theorem close_outcomes_witness:
  "client new_RedisCache = None \<and>
   close ''123'' (new_RedisCache, fresh_env) = ((new_RedisCache, fresh_env), Resolves ()) \<and>
   client (fst opened_world) \<noteq> None \<and>
   link_error ((snd opened_world)\<lparr>link_error := Some ''Timeout''\<rparr>) = Some ''Timeout'' \<and>
   snd (close ''123'' (fst opened_world, (snd opened_world)\<lparr>link_error := Some ''Timeout''\<rparr>))
     = Rejects (ReplyError ''Timeout'') \<and>
   isOpen (fst (fst (close ''123''
     (fst opened_world, (snd opened_world)\<lparr>link_error := Some ''Timeout''\<rparr>)))) \<and>
   link_error (snd opened_world) = None \<and>
   snd (close ''123'' (fst opened_world, snd opened_world)) = Resolves () \<and>
   \<not> isOpen (fst (fst (close ''123'' (fst opened_world, snd opened_world))))"
proof -
  have h1: "client new_RedisCache = None" by (simp add: new_RedisCache_def)
  have h2: "client (fst opened_world) \<noteq> None" by (simp add: opened_world_eq)
  have h3: "link_error ((snd opened_world)\<lparr>link_error := Some ''Timeout''\<rparr>) = Some ''Timeout''"
    by simp
  have h4: "link_error (snd opened_world) = None" by (simp add: opened_world_eq)
  from h1 h2 h3 h4
    close_outcomes [of new_RedisCache "''123''" fresh_env "''Timeout''"]
    close_outcomes [of "fst opened_world" "''123''"
      "(snd opened_world)\<lparr>link_error := Some ''Timeout''\<rparr>" "''Timeout''"]
    close_outcomes [of "fst opened_world" "''123''" "snd opened_world" "''Timeout''"]
  show ?thesis by blast
qed

subsection \<open>\<open>isOpen\<close>\<close>

text \<open>
  C5, as stated, fails: right after \<open>open\<close> has resolved on a new cache, the handle that
  \<open>createClient\<close> returned is held although its connection is not yet established, and
  \<open>isOpen()\<close> is true.
\<close>

theorem isOpen_before_connected:
  "isOpen (fst opened_world) \<and> map_option connected (client (fst opened_world)) = Some False"
  by (simp add: opened_world_eq isOpen_def)

text \<open>
  C5, amended. \<open>isOpen()\<close> is true exactly when the component holds a client handle,
  whether or not the connection of that handle is established; when \<open>open\<close> resolves,
  the component holds the handle just created, whose connection is not yet established,
  and \<open>isOpen()\<close> is true.
\<close>

theorem isOpen_iff_handle:
  "(isOpen s \<longleftrightarrow> (\<exists>c. client s = Some c)) \<and>
   isOpen (s\<lparr>client := connect_event (client s)\<rparr>) = isOpen s \<and>
   (snd (open_cache refuses cid r l (s, env)) = Resolves () \<longrightarrow>
      isOpen (fst (fst (open_cache refuses cid r l (s, env)))) \<and>
      (\<exists>c. client (fst (fst (open_cache refuses cid r l (s, env)))) = Some c \<and>
           \<not> connected c))"
  by (auto simp: isOpen_def connect_event_def open_cache_def createClient_def
      split: sum.splits option.splits)

text \<open>The instance for \<open>open\<close> on a new cache with a connection to \<open>localhost\<close>.\<close>

theorem isOpen_iff_handle_witness:
  "snd (open_cache example_refuses ''123'' (Inr (Some local_connection)) (Inr None)
          (new_RedisCache, fresh_env)) = Resolves () \<and>
   isOpen (fst (fst (open_cache example_refuses ''123'' (Inr (Some local_connection)) (Inr None)
     (new_RedisCache, fresh_env)))) \<and>
   (\<exists>c. client (fst (fst (open_cache example_refuses ''123'' (Inr (Some local_connection))
            (Inr None) (new_RedisCache, fresh_env)))) = Some c \<and> \<not> connected c)"
proof -
  have h: "snd (open_cache example_refuses ''123'' (Inr (Some local_connection)) (Inr None)
             (new_RedisCache, fresh_env)) = Resolves ()"
    by (simp add: open_cache_def createClient_def build_options_def example_refuses_def
        local_connection_def)
  from h isOpen_iff_handle [of new_RedisCache example_refuses "''123''"
      "Inr (Some local_connection)" "Inr None" fresh_env]
  show ?thesis by blast
qed

subsection \<open>The reconnect policy\<close>

text \<open>
  C6. The reconnect policy answers, in this order: the error
  \<open>The server refused the connection\<close> when the failure reason is connection-refused;
  otherwise the error \<open>Retry time exhausted\<close> when the time spent retrying exceeds the
  timeout option; otherwise \<open>undefined\<close> when the attempt number exceeds the retries
  option; otherwise the delay \<open>min(attempt * 100, 3000)\<close>.
\<close>

theorem retryStrategy_order:
  "(refused opts \<longrightarrow>
      retryStrategy s opts = StopError ''The server refused the connection'') \<and>
   (\<not> refused opts \<and> total_retry_time opts > timeout s \<longrightarrow>
      retryStrategy s opts = StopError ''Retry time exhausted'') \<and>
   (\<not> refused opts \<and> total_retry_time opts \<le> timeout s \<and> attempt opts > retries s \<longrightarrow>
      retryStrategy s opts = Undefined) \<and>
   (\<not> refused opts \<and> total_retry_time opts \<le> timeout s \<and> attempt opts \<le> retries s \<longrightarrow>
      retryStrategy s opts = Delay (min (attempt opts * 100) 3000))"
  by (auto simp: retryStrategy_def refused_def split: option.splits)

text \<open>
  One input for each answer. The first is refused, out of time and out of attempts at
  once; the second is out of time and out of attempts; the last two are delays below
  and at the cap.
\<close>

theorem retryStrategy_order_witness:
  "retryStrategy new_RedisCache
     \<lparr>error = Some \<lparr>code = Some ''ECONNREFUSED''\<rparr>, total_retry_time = 40000, attempt = 9\<rparr>
     = StopError ''The server refused the connection'' \<and>
   retryStrategy new_RedisCache
     \<lparr>error = Some \<lparr>code = Some ''ETIMEDOUT''\<rparr>, total_retry_time = 40000, attempt = 9\<rparr>
     = StopError ''Retry time exhausted'' \<and>
   retryStrategy new_RedisCache
     \<lparr>error = None, total_retry_time = 500, attempt = 4\<rparr> = Undefined \<and>
   retryStrategy new_RedisCache
     \<lparr>error = None, total_retry_time = 500, attempt = 3\<rparr> = Delay 300 \<and>
   retryStrategy (new_RedisCache\<lparr>retries := 50\<rparr>)
     \<lparr>error = Some \<lparr>code = None\<rparr>, total_retry_time = 30000, attempt = 31\<rparr> = Delay 3000"
proof -
  let ?o1 = "\<lparr>error = Some \<lparr>code = Some ''ECONNREFUSED''\<rparr>, total_retry_time = 40000,
              attempt = 9\<rparr>"
  let ?o2 = "\<lparr>error = Some \<lparr>code = Some ''ETIMEDOUT''\<rparr>, total_retry_time = 40000,
              attempt = 9\<rparr>"
  let ?o3 = "\<lparr>error = None, total_retry_time = 500, attempt = 4\<rparr>"
  let ?o4 = "\<lparr>error = None, total_retry_time = 500, attempt = 3\<rparr>"
  let ?o5 = "\<lparr>error = Some \<lparr>code = None\<rparr>, total_retry_time = 30000, attempt = 31\<rparr>"
  have h1: "refused ?o1" by (simp add: refused_def)
  have h2: "\<not> refused ?o2 \<and> total_retry_time ?o2 > timeout new_RedisCache"
    by (simp add: refused_def new_RedisCache_def)
  have h3: "\<not> refused ?o3 \<and> total_retry_time ?o3 \<le> timeout new_RedisCache \<and>
            attempt ?o3 > retries new_RedisCache"
    by (simp add: refused_def new_RedisCache_def)
  have h4: "\<not> refused ?o4 \<and> total_retry_time ?o4 \<le> timeout new_RedisCache \<and>
            attempt ?o4 \<le> retries new_RedisCache"
    by (simp add: refused_def new_RedisCache_def)
  have h5: "\<not> refused ?o5 \<and> total_retry_time ?o5 \<le> timeout (new_RedisCache\<lparr>retries := 50\<rparr>) \<and>
            attempt ?o5 \<le> retries (new_RedisCache\<lparr>retries := 50\<rparr>)"
    by (simp add: refused_def new_RedisCache_def)
  have c1: "retryStrategy new_RedisCache ?o1 = StopError ''The server refused the connection''"
    using h1 retryStrategy_order [of ?o1 new_RedisCache] by blast
  have c2: "retryStrategy new_RedisCache ?o2 = StopError ''Retry time exhausted''"
    using h2 retryStrategy_order [of ?o2 new_RedisCache] by blast
  have c3: "retryStrategy new_RedisCache ?o3 = Undefined"
    using h3 retryStrategy_order [of ?o3 new_RedisCache] by blast
  have c4: "retryStrategy new_RedisCache ?o4 = Delay (min (attempt ?o4 * 100) 3000)"
    using h4 retryStrategy_order [of ?o4 new_RedisCache] by blast
  have c5: "retryStrategy (new_RedisCache\<lparr>retries := 50\<rparr>) ?o5
              = Delay (min (attempt ?o5 * 100) 3000)"
    using h5 retryStrategy_order [of ?o5 "new_RedisCache\<lparr>retries := 50\<rparr>"] by blast
  from c1 c2 c3 c4 c5 show ?thesis by simp
qed

subsection \<open>The value \<open>remove\<close> resolves with\<close>

text \<open>
  C7. \<open>remove\<close> sends \<open>DEL\<close>, whose reply is the number of keys deleted, and treats the
  reply as the JSON text of a value: in the example cache where \<open>key1\<close> holds \<open>"ABC"\<close>,
  \<open>remove("123", "key1")\<close> deletes the key and resolves with \<open>1\<close>, not with \<open>"ABC"\<close>;
  \<open>remove("123", "key2")\<close>, of a key that is not there, resolves with \<open>0\<close>, not with
  \<open>null\<close>.
\<close>

theorem remove_resolves_with_count:
  "live (snd stored_world) ''key1'' = Some ([CHR 0x22] @ ''ABC'' @ [CHR 0x22]) \<and>
   snd (remove example_codec ''123'' ''key1'' stored_world) = Resolves (JNum 1) \<and>
   live (snd (fst (remove example_codec ''123'' ''key1'' stored_world))) ''key1'' = None \<and>
   snd (remove example_codec ''123'' ''key2'' stored_world) = Resolves (JNum 0)"
  by (simp add: stored_world_def opened_world_eq store_def remove_def checkOpened_def
      isOpen_def send_command_def live_def parse_if_truthy_def example_codec_def
      table_codec_def show_int_def show_nat.simps digit_char_def)

subsection \<open>The defaults of the options\<close>

text \<open>
  C8. A new component has the timeout 30000 ms, not 60000 ms, and 3 retries; a
  configuration without \<open>options.timeout\<close> leaves the timeout at 30000 ms. So the
  reconnect policy of a new component gives up with \<open>Retry time exhausted\<close> after
  45000 ms of retrying.
\<close>

theorem default_timeout_30000:
  "timeout new_RedisCache = 30000 \<and> retries new_RedisCache = 3 \<and>
   timeout (configure conv (\<lambda>k. None) new_RedisCache) = 30000 \<and>
   retryStrategy new_RedisCache \<lparr>error = None, total_retry_time = 45000, attempt = 1\<rparr>
     = StopError ''Retry time exhausted''"
  by (simp add: new_RedisCache_def configure_def getAsIntegerWithDefault_def retryStrategy_def)

subsection \<open>\<open>open\<close> on an open component\<close>

text \<open>
  C10. On a component that already holds a handle, \<open>open\<close> ends as it would on a closed
  one: that the component is open makes it neither fail nor return early. When the
  connection resolves, the credential lookup returns and \<open>createClient\<close> does not refuse
  the options built from them, \<open>open\<close> resolves and replaces the handle by the newly
  created one, whose options come from that resolution; it issues no command, so no
  \<open>QUIT\<close> for the previous handle, whose connection stays among the open ones.
\<close>

theorem open_when_already_open:
  assumes "client s = Some old" and "ident old < created env"
    and "refuses (build_options connection credential) = None"
  shows "snd (open_cache refuses cid r l (s, env))
           = snd (open_cache refuses cid r l (s\<lparr>client := None\<rparr>, env)) \<and>
    open_cache refuses cid (Inr (Some connection)) (Inr credential) (s, env) =
      ((s\<lparr>client := Some \<lparr>ident = created env,
                            options = build_options connection credential,
                            connected = False\<rparr>\<rparr>,
        env\<lparr>sockets := sockets env @ [created env], created := Suc (created env)\<rparr>),
       Resolves ()) \<and>
    client (fst (fst (open_cache refuses cid (Inr (Some connection)) (Inr credential) (s, env))))
      \<noteq> Some old \<and>
    issued (snd (fst (open_cache refuses cid (Inr (Some connection)) (Inr credential) (s, env))))
      = issued env \<and>
    (ident old \<in> set (sockets env) \<longrightarrow>
       ident old \<in> set (sockets (snd (fst (open_cache refuses cid (Inr (Some connection))
                                              (Inr credential) (s, env))))))"
proof -
  have same: "snd (open_cache refuses cid r l (s, env))
                = snd (open_cache refuses cid r l (s\<lparr>client := None\<rparr>, env))"
    by (simp add: open_cache_def createClient_def split: sum.splits option.splits)
  have eq: "open_cache refuses cid (Inr (Some connection)) (Inr credential) (s, env) =
      ((s\<lparr>client := Some \<lparr>ident = created env,
                            options = build_options connection credential,
                            connected = False\<rparr>\<rparr>,
        env\<lparr>sockets := sockets env @ [created env], created := Suc (created env)\<rparr>),
       Resolves ())"
    using assms(3) by (simp add: open_cache_def createClient_def)
  have fresh: "\<lparr>ident = created env, options = build_options connection credential,
                connected = False\<rparr> \<noteq> old"
    using assms(2) by auto
  from same eq fresh show ?thesis by simp
qed

text \<open>
  The instance for a second \<open>open\<close> on the opened example cache, this time with a URI
  and a password.
\<close>

theorem open_when_already_open_witness:
  "client (fst opened_world) = Some first_handle \<and>
   ident first_handle < created (snd opened_world) \<and>
   example_refuses
     (build_options \<lparr>getUri = Some ''redis://cache:6379'', getHost = None, getPort = None\<rparr>
        (Some \<lparr>getPassword = Some ''secret''\<rparr>)) = None \<and>
   ident first_handle \<in> set (sockets (snd opened_world)) \<and>
   snd (open_cache example_refuses ''124''
          (Inr (Some \<lparr>getUri = Some ''redis://cache:6379'', getHost = None, getPort = None\<rparr>))
          (Inr (Some \<lparr>getPassword = Some ''secret''\<rparr>))
          (fst opened_world, snd opened_world)) = Resolves () \<and>
   client (fst (fst (open_cache example_refuses ''124''
          (Inr (Some \<lparr>getUri = Some ''redis://cache:6379'', getHost = None, getPort = None\<rparr>))
          (Inr (Some \<lparr>getPassword = Some ''secret''\<rparr>))
          (fst opened_world, snd opened_world))))
     = Some \<lparr>ident = 1,
             options = \<lparr>url = Some ''redis://cache:6379'', host = None, port = None,
                        password = Some (Some ''secret'')\<rparr>,
             connected = False\<rparr> \<and>
   issued (snd (fst (open_cache example_refuses ''124''
          (Inr (Some \<lparr>getUri = Some ''redis://cache:6379'', getHost = None, getPort = None\<rparr>))
          (Inr (Some \<lparr>getPassword = Some ''secret''\<rparr>))
          (fst opened_world, snd opened_world)))) = [] \<and>
   ident first_handle
     \<in> set (sockets (snd (fst (open_cache example_refuses ''124''
          (Inr (Some \<lparr>getUri = Some ''redis://cache:6379'', getHost = None, getPort = None\<rparr>))
          (Inr (Some \<lparr>getPassword = Some ''secret''\<rparr>))
          (fst opened_world, snd opened_world)))))"
proof -
  let ?conn = "\<lparr>getUri = Some ''redis://cache:6379'', getHost = None, getPort = None\<rparr>"
  let ?cred = "Some \<lparr>getPassword = Some ''secret''\<rparr>"
  have h1: "client (fst opened_world) = Some first_handle"
    by (simp add: opened_world_eq first_handle_def)
  have h2: "ident first_handle < created (snd opened_world)"
    by (simp add: opened_world_eq first_handle_def)
  have e3: "build_options ?conn ?cred =
              \<lparr>url = Some ''redis://cache:6379'', host = None, port = None,
               password = Some (Some ''secret'')\<rparr>"
    by (simp add: build_options_def)
  have h3: "example_refuses (build_options ?conn ?cred) = None"
    by (simp add: e3 example_refuses_def)
  have h4: "ident first_handle \<in> set (sockets (snd opened_world))"
    by (simp add: opened_world_eq first_handle_def)
  have e1: "issued (snd opened_world) = []" by (simp add: opened_world_eq)
  have e2: "created (snd opened_world) = 1" by (simp add: opened_world_eq)
  note main = open_when_already_open [where refuses = example_refuses and connection = ?conn
      and credential = ?cred and cid = "''124''" and r = "Inr (Some ?conn)" and l = "Inr ?cred",
      OF h1 h2 h3]
  from main h1 h2 h3 h4 e1 e2 e3 show ?thesis by simp
qed

end
